theory Spec2Isabelle
  imports Complex_Main
begin

section \<open>Python helpers used by the browser tools\<close>

text \<open>
  Python's \<open>str(n)\<close> for a non-negative integer, and for any integer. JavaScript's
  string concatenation \<open>'ref_' + n\<close> renders a counter the same way.
\<close>

definition digit_char :: "nat \<Rightarrow> char" where
  "digit_char d = char_of (48 + d)"

function str_nat :: "nat \<Rightarrow> string" where
  "str_nat n = (if n < 10 then [digit_char n] else str_nat (n div 10) @ [digit_char (n mod 10)])"
  by pat_completeness auto
termination
  by (relation "measure (\<lambda>n. n)") auto

declare str_nat.simps [simp del]

definition str_int :: "int \<Rightarrow> string" where
  "str_int i = (if i < 0 then CHR ''-'' # str_nat (nat (- i)) else str_nat (nat i))"

section \<open>Interaction engine: coordinate auto-correction of \<open>_click_at_impl\<close>\<close>

text \<open>
  Lines 169-188 of \<open>playwright_tools.py\<close>. The viewport height \<open>vh\<close> is read from the
  page; \<open>y\<close> is the requested (or ref-resolved) coordinate. The result is the wheel delta
  passed to \<open>page.mouse.wheel\<close> (\<open>None\<close> when no scroll happens) and the y coordinate that
  is handed to \<open>page.mouse.click\<close>. \<open>//\<close> is floor division, as \<open>div\<close> on \<open>int\<close>.
\<close>

definition click_y_correction :: "int \<Rightarrow> int \<Rightarrow> int option \<times> int" where
  "click_y_correction vh y =
     (let (wheel, y1) =
        (if y < 0 then
           (let scroll_amount = y - (vh div 2) in (Some scroll_amount, y - scroll_amount))
         else if y > vh then
           (let scroll_amount = y - (vh div 2) in (Some scroll_amount, y - scroll_amount))
         else (None, y));
          y2 = (if \<not> (0 \<le> y1 \<and> y1 \<le> vh) then max 1 (min y1 (vh - 1)) else y1)
      in (wheel, y2))"

definition clicked_y :: "int \<Rightarrow> int \<Rightarrow> int" where
  "clicked_y vh y = snd (click_y_correction vh y)"

definition wheel_delta :: "int \<Rightarrow> int \<Rightarrow> int option" where
  "wheel_delta vh y = fst (click_y_correction vh y)"

section \<open>Session manager (\<open>playwright_manager.py\<close>)\<close>

text \<open>
  A \<open>Page\<close> object of the driver: its identity in the owning thread's connection, the
  URL of the tab it stands for and whether it is closed. Two threads hold different
  objects (different \<open>page_id\<close>) for the same remote tab; Python's \<open>==\<close> on pages is
  object identity, here equality of the records.
\<close>

record page =
  page_id :: nat
  url :: string
  is_closed :: bool

record browser_context =
  pages :: "page list"

record browser =
  contexts :: "browser_context list"

text \<open>The instance attributes set by \<open>PlaywrightManager.__init__\<close>.\<close>

record manager =
  m_playwright :: "nat option"
  m_browser :: "browser option"
  m_context :: "browser_context option"
  m_page :: "page option"
  m_headless :: bool
  m_connected_via_cdp :: bool
  m_quiet_mode :: bool

definition new_manager :: manager where
  "new_manager = \<lparr> m_playwright = None, m_browser = None, m_context = None, m_page = None,
     m_headless = False, m_connected_via_cdp = False, m_quiet_mode = False \<rparr>"

text \<open>
  The class attributes \<open>_global_active_page_index\<close> and \<open>_global_active_page_url\<close>,
  shared by the managers of all threads.
\<close>

record active_tab =
  global_active_page_index :: int
  global_active_page_url :: string

definition initial_active_tab :: active_tab where
  "initial_active_tab = \<lparr> global_active_page_index = 0, global_active_page_url = [] \<rparr>"

definition browser_pages :: "browser \<Rightarrow> page list" where
  "browser_pages b = concat (map pages (contexts b))"

definition get_all_pages :: "manager \<Rightarrow> page list" where
  "get_all_pages m =
     (case m_browser m of
        Some b \<Rightarrow>
          (if m_connected_via_cdp m then browser_pages b
           else (case m_context m of Some c \<Rightarrow> pages c | None \<Rightarrow> []))
      | None \<Rightarrow> (case m_context m of Some c \<Rightarrow> pages c | None \<Rightarrow> []))"

text \<open>
  The resynchronisation at the head of \<open>get_page\<close>: the first page of
  \<open>get_all_pages\<close> whose URL equals the descriptor's replaces the local handle; when
  the loop finds none, \<open>self._page\<close> is left as it is.
\<close>

definition sync_page :: "active_tab \<Rightarrow> manager \<Rightarrow> manager" where
  "sync_page g m =
     (if m_connected_via_cdp m \<and> m_browser m \<noteq> None then
        (let target_url = global_active_page_url g in
           if target_url \<noteq> [] \<and>
              (case m_page m of None \<Rightarrow> True | Some p \<Rightarrow> url p \<noteq> target_url)
           then (case find (\<lambda>p. url p = target_url) (get_all_pages m) of
                   Some p \<Rightarrow> m\<lparr> m_page := Some p \<rparr>
                 | None \<Rightarrow> m)
           else m)
      else m)"

definition get_page :: "active_tab \<Rightarrow> manager \<Rightarrow> page option \<times> manager" where
  "get_page g m =
     (let m' = sync_page g m in
        (case m_page m' of
           Some p \<Rightarrow> (if \<not> is_closed p then (Some p, m') else (None, m'))
         | None \<Rightarrow> (None, m')))"

fun index_of :: "'a \<Rightarrow> 'a list \<Rightarrow> nat option" where
  "index_of x [] = None"
| "index_of x (y # ys) =
     (if y = x then Some 0 else (case index_of x ys of None \<Rightarrow> None | Some i \<Rightarrow> Some (Suc i)))"

definition set_page :: "active_tab \<Rightarrow> manager \<Rightarrow> page \<Rightarrow> active_tab \<times> manager" where
  "set_page g m p =
     (let m' = m\<lparr> m_page := Some p \<rparr> in
        (case m_browser m of
           Some b \<Rightarrow>
             (if m_connected_via_cdp m then
                (let g1 = g\<lparr> global_active_page_url := url p \<rparr> in
                   (case index_of p (browser_pages b) of
                      Some i \<Rightarrow> (g1\<lparr> global_active_page_index := int i \<rparr>, m')
                    | None \<Rightarrow> (g1, m')))
              else (g, m'))
         | None \<Rightarrow> (g, m')))"

subsection \<open>\<open>close\<close> and the shutdown hook\<close>

text \<open>
  The calls \<open>close\<close> makes on the driver. Each may raise; the environment says which
  ones do. A call is logged when it is attempted. Printing is not modelled.
\<close>

datatype driver_call = ContextClose | BrowserClose | PlaywrightStop

datatype exn = Exception string

record close_env =
  context_close_raises :: bool
  browser_close_raises :: bool
  playwright_stop_raises :: bool

definition driver_call :: "bool \<Rightarrow> driver_call \<Rightarrow> driver_call list \<Rightarrow> (exn + unit) \<times> driver_call list" where
  "driver_call raises c tr =
     (if raises then (Inl (Exception ''driver error''), tr @ [c]) else (Inr (), tr @ [c]))"

text \<open>\<open>try: ... except Exception: pass\<close> around one call.\<close>

definition try_pass :: "(exn + unit) \<times> driver_call list \<Rightarrow> (exn + unit) \<times> driver_call list" where
  "try_pass r = (case r of (Inl e, tr) \<Rightarrow> (Inr (), tr) | (Inr u, tr) \<Rightarrow> (Inr (), tr))"

definition close :: "close_env \<Rightarrow> manager \<Rightarrow> driver_call list \<Rightarrow> (exn + manager) \<times> driver_call list" where
  "close env m tr =
     (let (r1, tr1) =
            (if \<not> m_connected_via_cdp m \<and> m_context m \<noteq> None
             then try_pass (driver_call (context_close_raises env) ContextClose tr)
             else (Inr (), tr))
      in case r1 of Inl e \<Rightarrow> (Inl e, tr1) | Inr _ \<Rightarrow>
     (let (r2, tr2) =
            (if \<not> m_connected_via_cdp m \<and> m_browser m \<noteq> None
             then try_pass (driver_call (browser_close_raises env) BrowserClose tr1)
             else (Inr (), tr1))
      in case r2 of Inl e \<Rightarrow> (Inl e, tr2) | Inr _ \<Rightarrow>
     (let (r3, tr3) =
            (if m_playwright m \<noteq> None
             then try_pass (driver_call (playwright_stop_raises env) PlaywrightStop tr2)
             else (Inr (), tr2))
      in case r3 of Inl e \<Rightarrow> (Inl e, tr3) | Inr _ \<Rightarrow>
        (Inr (m\<lparr> m_page := None, m_context := None, m_browser := None,
                 m_playwright := None, m_connected_via_cdp := False \<rparr>), tr3))))"

text \<open>
  \<open>_cleanup_all_managers\<close>: every tracked manager is closed inside its own
  \<open>try\<close>/\<open>except\<close>, then the registry is cleared. The result is the states the
  managers are left in, the registry and the trace of calls.
\<close>

fun close_each :: "close_env \<Rightarrow> manager list \<Rightarrow> driver_call list \<Rightarrow> manager list \<times> driver_call list" where
  "close_each env [] tr = ([], tr)"
| "close_each env (m # ms) tr =
     (case close env m tr of
        (Inl e, tr1) \<Rightarrow> (let (ms', tr2) = close_each env ms tr1 in (m # ms', tr2))
      | (Inr m', tr1) \<Rightarrow> (let (ms', tr2) = close_each env ms tr1 in (m' # ms', tr2)))"

definition cleanup_all_managers ::
  "close_env \<Rightarrow> manager list \<Rightarrow> driver_call list \<Rightarrow> manager list \<times> manager list \<times> driver_call list" where
  "cleanup_all_managers env all_managers tr =
     (let (left, tr1) = close_each env all_managers tr in (left, [], tr1))"

subsection \<open>\<open>switch_to_tab\<close> (\<open>playwright_tools.py\<close>)\<close>



text \<open>All handles of a manager are cleared, as \<open>close\<close> leaves them.\<close>

definition handles_cleared :: "manager \<Rightarrow> bool" where
  "handles_cleared m \<longleftrightarrow> m_page m = None \<and> m_context m = None \<and> m_browser m = None
     \<and> m_playwright m = None \<and> \<not> m_connected_via_cdp m"

subsection \<open>A concrete browser with three tabs, seen from two threads\<close>

text \<open>
  Thread A and thread B are both attached over the remote-debugging endpoint; each holds
  its own page objects. \<open>tab_u_other\<close> is thread A's object for the tab that thread B
  sees as \<open>tab_u\<close>. In \<open>thread_B_drifted\<close> that tab is no longer open and the local
  handle is the second tab.
\<close>

definition tab_a :: page where "tab_a = \<lparr> page_id = 10, url = ''https://a.example/'', is_closed = False \<rparr>"
definition tab_b :: page where "tab_b = \<lparr> page_id = 11, url = ''https://b.example/'', is_closed = False \<rparr>"
definition tab_u :: page where "tab_u = \<lparr> page_id = 12, url = ''https://u.example/'', is_closed = False \<rparr>"
definition tab_u_other :: page where "tab_u_other = \<lparr> page_id = 7, url = ''https://u.example/'', is_closed = False \<rparr>"

definition cdp_manager :: "page list \<Rightarrow> page option \<Rightarrow> manager" where
  "cdp_manager ps cur = \<lparr> m_playwright = Some 0,
     m_browser = Some \<lparr> contexts = [\<lparr> pages = ps \<rparr>] \<rparr>,
     m_context = Some \<lparr> pages = ps \<rparr>, m_page = cur,
     m_headless = False, m_connected_via_cdp = True, m_quiet_mode = False \<rparr>"

definition thread_A :: manager where "thread_A = cdp_manager [tab_u_other] (Some tab_u_other)"
definition thread_B :: manager where "thread_B = cdp_manager [tab_a, tab_b, tab_u] (Some tab_a)"
definition thread_B_drifted :: manager where "thread_B_drifted = cdp_manager [tab_a, tab_b] (Some tab_b)"


section \<open>Strings as Python and JavaScript handle them\<close>

text \<open>
  Strings are lists of bytes. \<open>is_space\<close> is Python's \<open>str.isspace\<close> on the ASCII
  range (tab, line feed, vertical tab, form feed, carriage return, the four separators
  28-31 and the space); \<open>strip\<close>, \<open>split_on\<close> (\<open>s.split(c)\<close>), \<open>split_ws\<close>
  (\<open>s.split(None, n)\<close>), \<open>join\<close> (\<open>sep.join(xs)\<close>), \<open>lower\<close> and \<open>startswith\<close> are
  the string methods the tools call.
\<close>

definition newline :: char where
  "newline = char_of (10 :: nat)"

definition is_space :: "char \<Rightarrow> bool" where
  "is_space c = (let n = (of_char c :: nat) in (9 \<le> n \<and> n \<le> 13) \<or> (28 \<le> n \<and> n \<le> 32))"


fun split_on :: "char \<Rightarrow> string \<Rightarrow> string list" where
  "split_on c [] = [[]]"
| "split_on c (x # xs) =
     (if x = c then [] # split_on c xs
      else (case split_on c xs of [] \<Rightarrow> [[x]] | y # ys \<Rightarrow> (x # y) # ys))"

fun split_ws :: "nat \<Rightarrow> string \<Rightarrow> string list" where
  "split_ws 0 s = (let s' = dropWhile is_space s in if s' = [] then [] else [s'])"
| "split_ws (Suc n) s =
     (let s' = dropWhile is_space s in
        if s' = [] then []
        else takeWhile (\<lambda>c. \<not> is_space c) s' # split_ws n (dropWhile (\<lambda>c. \<not> is_space c) s'))"


definition lower_char :: "char \<Rightarrow> char" where
  "lower_char c = (let n = (of_char c :: nat) in if 65 \<le> n \<and> n \<le> 90 then char_of (n + 32) else c)"

definition lower :: "string \<Rightarrow> string" where
  "lower s = map lower_char s"

definition startswith :: "string \<Rightarrow> string \<Rightarrow> bool" where
  "startswith s p = (take (length p) s = p)"

text \<open>
  A Python float: a finite value or one of the three special values. Comparisons with
  \<open>nan\<close> are false; \<open>min(a, b)\<close> returns \<open>a\<close> unless \<open>b < a\<close>.
\<close>

datatype pyfloat = Finite real | PosInf | NegInf | NaN

fun float_lt :: "pyfloat \<Rightarrow> pyfloat \<Rightarrow> bool" where
  "float_lt NaN _ = False"
| "float_lt _ NaN = False"
| "float_lt (Finite a) (Finite b) = (a < b)"
| "float_lt (Finite a) PosInf = True"
| "float_lt (Finite a) NegInf = False"
| "float_lt PosInf _ = False"
| "float_lt NegInf NegInf = False"
| "float_lt NegInf _ = True"

definition float_min :: "pyfloat \<Rightarrow> pyfloat \<Rightarrow> pyfloat" where
  "float_min a b = (if float_lt b a then b else a)"

text \<open>
  \<open>time.sleep\<close>: the seconds slept, or the message of the exception it raises
  (\<open>ValueError\<close> for a negative length or \<open>nan\<close>, \<open>OverflowError\<close> for infinity).
\<close>

fun time_sleep :: "pyfloat \<Rightarrow> string + real" where
  "time_sleep (Finite r) = (if r < 0 then Inl ''sleep length must be non-negative'' else Inr r)"
| "time_sleep PosInf = Inl ''timestamp too large to convert to C _PyTime_t''"
| "time_sleep NegInf = Inl ''sleep length must be non-negative''"
| "time_sleep NaN = Inl ''Invalid value NaN (not a number)''"

section \<open>Interaction engine: waits and batched sequences\<close>

text \<open>
  An action on the browser: it runs in a world \<open>'w\<close> (the remote browser and the
  pages it shows), returns a value or raises an exception (\<open>Inl\<close>, with the text of
  \<open>str(e)\<close>), and leaves a world.
\<close>

type_synonym ('w, 'a) act = "'w \<Rightarrow> (string + 'a) \<times> 'w"

definition ret :: "'a \<Rightarrow> ('w, 'a) act" where
  "ret a w = (Inr a, w)"

definition raise_exn :: "string \<Rightarrow> ('w, 'a) act" where
  "raise_exn e w = (Inl e, w)"

definition and_then :: "('w, 'a) act \<Rightarrow> ('a \<Rightarrow> ('w, 'b) act) \<Rightarrow> ('w, 'b) act" where
  "and_then m f w = (case m w of (Inl e, w') \<Rightarrow> (Inl e, w') | (Inr a, w') \<Rightarrow> f a w')"

definition lift_result :: "string + 'a \<Rightarrow> ('w, 'a) act" where
  "lift_result r w = (r, w)"

text \<open>What \<open>element_ref_script.js\<close> answers for a ref.\<close>

datatype ref_res = Resolved int int | NotResolved string

text \<open>The after-click snapshot of the coordinate click of a batch.\<close>

record after_state =
  overlayCount :: int
  optionCount :: int
  focusedInput :: bool

text \<open>
  The driver: the operations of the page object and of the Python runtime that the
  tools call. \<open>click_report\<close> is the part of \<open>_click_at_impl\<close> from the viewport
  query on (correction, click, before/after diff, summary); \<open>form_input_impl\<close> is
  \<open>_form_input_impl\<close>, which catches every exception itself.
\<close>

record 'w driver =
  ensure_browser_connected :: "('w, unit) act"
  load_element_ref_script :: bool
  resolve_ref :: "string \<Rightarrow> ('w, ref_res) act"
  click_report :: "int \<Rightarrow> int \<Rightarrow> ('w, string) act"
  form_input_impl :: "string \<Rightarrow> string \<Rightarrow> 'w \<Rightarrow> string \<times> 'w"
  count_overlays :: "('w, int) act"
  snapshot_after :: "('w, after_state) act"
  mouse_move :: "int \<Rightarrow> int \<Rightarrow> ('w, unit) act"
  mouse_click :: "int \<Rightarrow> int \<Rightarrow> nat \<Rightarrow> ('w, unit) act"
  mouse_wheel :: "int \<Rightarrow> ('w, unit) act"
  keyboard_press :: "string \<Rightarrow> ('w, unit) act"
  keyboard_type :: "string \<Rightarrow> ('w, unit) act"
  pause :: "real \<Rightarrow> 'w \<Rightarrow> 'w"
  py_int :: "string \<Rightarrow> string + int"
  py_float :: "string \<Rightarrow> string + pyfloat"
  float_str :: "pyfloat \<Rightarrow> string"

definition sleep :: "'w driver \<Rightarrow> pyfloat \<Rightarrow> ('w, unit) act" where
  "sleep drv d w = (case time_sleep d of Inl e \<Rightarrow> (Inl e, w) | Inr r \<Rightarrow> (Inr (), pause drv r w))"


definition KEY_MAP :: "(string \<times> string) list" where
  "KEY_MAP =
    [(''ctrl'', ''Control''), (''control'', ''Control''),
     (''cmd'', ''Meta''), (''command'', ''Meta''), (''meta'', ''Meta''),
     (''alt'', ''Alt''), (''option'', ''Alt''), (''shift'', ''Shift''),
     (''enter'', ''Enter''), (''return'', ''Enter''), (''tab'', ''Tab''),
     (''delete'', ''Delete''), (''backspace'', ''Backspace''),
     (''escape'', ''Escape''), (''esc'', ''Escape''), (''space'', '' ''),
     (''up'', ''ArrowUp''), (''down'', ''ArrowDown''),
     (''left'', ''ArrowLeft''), (''right'', ''ArrowRight'')]"

definition map_key :: "string \<Rightarrow> string" where
  "map_key key = (case map_of KEY_MAP (lower key) of Some k \<Rightarrow> k | None \<Rightarrow> key)"

text \<open>
  \<open>_click_at_impl(ref=ref)\<close> as the batch calls it: the ref is resolved through the
  script; the whole body is inside \<open>try\<close>/\<open>except Exception\<close>, so it returns text.
\<close>

definition click_at_impl_ref :: "'w driver \<Rightarrow> string \<Rightarrow> 'w \<Rightarrow> string \<times> 'w" where
  "click_at_impl_ref drv ref w =
     (case and_then (ensure_browser_connected drv) (\<lambda>_.
        if \<not> load_element_ref_script drv then ret ''Internal Error: element_ref_script.js not found''
        else and_then (resolve_ref drv ref) (\<lambda>r.
          case r of
            NotResolved msg \<Rightarrow> ret (''Failed to resolve ref '' @ [CHR 0x27] @ ref @ [CHR 0x27] @ '': '' @ msg)
          | Resolved x y \<Rightarrow> click_report drv x y)) w of
        (Inl e, w') \<Rightarrow> (''Click failed: '' @ e, w')
      | (Inr s, w') \<Rightarrow> (s, w'))"

text \<open>Python's \<open>xs[i]\<close> on a list, raising \<open>IndexError\<close> out of range.\<close>

definition list_get :: "'a list \<Rightarrow> nat \<Rightarrow> ('w, 'a) act" where
  "list_get xs i = (if i < length xs then ret (xs ! i) else raise_exn ''list index out of range'')"

definition ballot_x :: string where
  "ballot_x = [char_of (226 :: nat), char_of (156 :: nat), char_of (151 :: nat)]"

text \<open>
  The body of the \<open>try\<close> of one batch line: \<open>parts\<close> is \<open>line.split(None, 2)\<close> (not
  empty) and \<open>action\<close> its first word in lower case. The branches are tried in the
  order of the source; the result is the status line appended to \<open>results\<close>.
\<close>

definition line_body :: "'w driver \<Rightarrow> string \<Rightarrow> string list \<Rightarrow> string \<Rightarrow> ('w, string) act" where
  "line_body drv line parts action =
     (if action = ''click'' \<and> length parts \<ge> 2 \<and> startswith (parts ! 1) ''ref_'' then
        (\<lambda>w. case click_at_impl_ref drv (parts ! 1) w of (res, w') \<Rightarrow> (Inr (''OK: '' @ res), w'))
      else if action \<in> set [''fill'', ''input'', ''set''] \<and> length parts \<ge> 3
              \<and> startswith (parts ! 1) ''ref_'' then
        (\<lambda>w. case form_input_impl drv (parts ! 1) (parts ! 2) w of
                (res, w') \<Rightarrow> (Inr (''OK: '' @ res), w'))
      else if action = ''click'' \<and> length parts \<ge> 2 then
        (let coords = split_on CHR '','' (parts ! 1) in
         and_then (list_get coords 0) (\<lambda>c0.
         and_then (lift_result (py_int drv c0)) (\<lambda>x.
         and_then (list_get coords 1) (\<lambda>c1.
         and_then (lift_result (py_int drv c1)) (\<lambda>y.
         and_then (count_overlays drv) (\<lambda>before_overlays.
         and_then (mouse_move drv x y) (\<lambda>_.
         and_then (mouse_click drv x y 1) (\<lambda>_.
         and_then (sleep drv (Finite (3 / 10))) (\<lambda>_.
         and_then (snapshot_after drv) (\<lambda>after.
           (let feedback0 = ''click ('' @ str_int x @ '','' @ str_int y @ '')'';
                feedback =
                  (if overlayCount after > before_overlays then
                     feedback0 @ '' - dropdown opened ('' @ str_int (optionCount after) @ '' options)''
                   else if focusedInput after then feedback0 @ '' - input focused''
                   else feedback0)
            in ret (''OK: '' @ feedback))))))))))))
      else if action = ''type'' \<and> length parts \<ge> 3 then
        (let coords = split_on CHR '','' (parts ! 1) in
         and_then (list_get coords 0) (\<lambda>c0.
         and_then (lift_result (py_int drv c0)) (\<lambda>x.
         and_then (list_get coords 1) (\<lambda>c1.
         and_then (lift_result (py_int drv c1)) (\<lambda>y.
         and_then (mouse_move drv x y) (\<lambda>_.
         and_then (mouse_click drv x y 3) (\<lambda>_.
         and_then (sleep drv (Finite (15 / 100))) (\<lambda>_.
         and_then (keyboard_press drv ''Backspace'') (\<lambda>_.
         and_then (sleep drv (Finite (1 / 10))) (\<lambda>_.
         and_then (keyboard_type drv (parts ! 2)) (\<lambda>_.
           ret (''OK: type '' @ [CHR 0x27] @ parts ! 2 @ [CHR 0x27] @ '' at ('' @ str_int x
                  @ '','' @ str_int y @ '') (cleared first)''))))))))))))
      else if action = ''press'' \<and> length parts \<ge> 2 then
        and_then (keyboard_press drv (map_key (parts ! 1))) (\<lambda>_.
        and_then (sleep drv (Finite (2 / 10))) (\<lambda>_.
          ret (''OK: press '' @ parts ! 1)))
      else if action = ''wait'' \<and> length parts \<ge> 2 then
        and_then (lift_result (py_float drv (parts ! 1))) (\<lambda>seconds.
        and_then (sleep drv (float_min seconds (Finite 10))) (\<lambda>_.
          ret (''OK: wait '' @ float_str drv seconds @ ''s'')))
      else if action = ''scroll'' \<and> length parts \<ge> 2 then
        (let direction = lower (parts ! 1) in
         and_then (if direction = ''down'' then mouse_wheel drv 500
                   else if direction = ''up'' then mouse_wheel drv (- 500)
                   else ret ()) (\<lambda>_.
         and_then (sleep drv (Finite (3 / 10))) (\<lambda>_.
           ret (''OK: scroll '' @ direction))))
      else ret (''? unknown/invalid: '' @ line))"

text \<open>
  One iteration of the loop: \<open>None\<close> is the \<open>continue\<close> of a line without words; an
  exception of the body becomes that line's status.
\<close>

definition exec_line :: "'w driver \<Rightarrow> string \<Rightarrow> 'w \<Rightarrow> string option \<times> 'w" where
  "exec_line drv line w =
     (let parts = split_ws 2 line in
        if parts = [] then (None, w)
        else
          (let action = lower (parts ! 0) in
             (case line_body drv line parts action w of
                (Inr status, w') \<Rightarrow> (Some status, w')
              | (Inl e, w') \<Rightarrow> (Some (ballot_x @ '' '' @ action @ '' error: '' @ e), w'))))"

fun run_lines :: "'w driver \<Rightarrow> string list \<Rightarrow> 'w \<Rightarrow> string list \<times> 'w" where
  "run_lines drv [] w = ([], w)"
| "run_lines drv (line # rest) w =
     (case exec_line drv line w of
        (None, w1) \<Rightarrow> run_lines drv rest w1
      | (Some status, w1) \<Rightarrow> (case run_lines drv rest w1 of (rs, w2) \<Rightarrow> (status # rs, w2)))"



subsection \<open>A driver that records what it is asked to do\<close>

text \<open>
  A concrete world for examples: the list of driver operations performed so far. The
  refs \<open>ref_1\<close> and \<open>ref_2\<close> resolve; every other ref is reported as not found.
  \<open>simple_int\<close> and \<open>simple_float\<close> read an optional minus sign and decimal digits,
  which is all the examples need of Python's \<open>int\<close> and \<open>float\<close>.
\<close>

datatype event = Connect | Move int int | Click int int nat | Wheel int | Press string
  | TypeText string | Pause real | ResolveRef string | ClickReport int int
  | FormInput string string | CountOverlays | SnapshotAfter











section \<open>Extraction of job listings (\<open>extract_jobs\<close>)\<close>

text \<open>
  JavaScript's \<open>trim\<close> on the ASCII range: tab, line feed, vertical tab, form feed,
  carriage return and space.
\<close>

definition js_is_space :: "char \<Rightarrow> bool" where
  "js_is_space c = (let n = (of_char c :: nat) in (9 \<le> n \<and> n \<le> 13) \<or> n = 32)"

definition js_trim :: "string \<Rightarrow> string" where
  "js_trim s = rev (dropWhile js_is_space (rev (dropWhile js_is_space s)))"

text \<open>
  An element matched by \<open>ul li, article\<close>: the \<open>href\<close> of its job link and the text
  content of its title element, each absent when \<open>querySelector\<close> finds nothing.
\<close>

record listing =
  link_href :: "string option"
  title_text :: "string option"

record job =
  job_title :: string
  job_url :: string
  job_id :: "string option"

text \<open>
  \<open>url.match(/[?&]jk=([^&]+)/)\<close>: the first place where \<open>?jk=\<close> or \<open>&jk=\<close> is
  followed by at least one character other than \<open>&\<close>; the group is the longest run
  of such characters.
\<close>

fun jk_match :: "string \<Rightarrow> string option" where
  "jk_match [] = None"
| "jk_match (c # cs) =
     (if (c = CHR ''?'' \<or> c = CHR ''&'') \<and> take 3 cs = ''jk=''
         \<and> takeWhile (\<lambda>d. d \<noteq> CHR ''&'') (drop 3 cs) \<noteq> []
      then Some (takeWhile (\<lambda>d. d \<noteq> CHR ''&'') (drop 3 cs))
      else jk_match cs)"

text \<open>The \<open>forEach\<close> of the page script, with its \<open>seen\<close> set and \<open>jobs\<close> array.\<close>

fun collect_jobs :: "listing list \<Rightarrow> string list \<Rightarrow> job list \<Rightarrow> job list" where
  "collect_jobs [] seen jobs = jobs"
| "collect_jobs (el # els) seen jobs =
     (case (link_href el, title_text el) of
        (Some href, Some raw) \<Rightarrow>
          (let text = js_trim raw in
             if length text < 3 \<or> text \<in> set seen then collect_jobs els seen jobs
             else collect_jobs els (text # seen)
                    (jobs @ [\<lparr> job_title = take 80 text, job_url = href, job_id = jk_match href \<rparr>]))
      | _ \<Rightarrow> collect_jobs els seen jobs)"

definition scrape_jobs :: "listing list \<Rightarrow> job list" where
  "scrape_jobs els = take 50 (collect_jobs els [] [])"

text \<open>What the page shows: the listing elements and the pagination candidates.\<close>

record job_page =
  listings :: "listing list"
  pagination :: "(string \<times> string) list"

text \<open>The module-level \<open>_extraction_session\<close>.\<close>

record extraction_session =
  file_path :: "string option"
  session_jobs :: "job list"
  pages_scraped :: nat

definition reset_extraction_session :: extraction_session where
  "reset_extraction_session = \<lparr> file_path = None, session_jobs = [], pages_scraped = 0 \<rparr>"

text \<open>
  The environment of one call: whether the page can be reached and evaluated, whether
  \<open>os.makedirs\<close> and the write of the JSON file raise, the time stamp, and the two
  path computations.
\<close>

record extract_env =
  page_raises :: "string option"
  makedirs_raises :: "string option"
  write_raises :: "string option"
  timestamp :: string
  extractions_dir :: string
  relative_path :: "string \<Rightarrow> string"

text \<open>\<open>j.get('id') or j['title']\<close>: the id when it is present and not empty.\<close>

definition dedup_key :: "job \<Rightarrow> string" where
  "dedup_key j = (case job_id j of Some i \<Rightarrow> (if i \<noteq> [] then i else job_title j) | None \<Rightarrow> job_title j)"

definition new_jobs_for :: "job list \<Rightarrow> job list \<Rightarrow> job list" where
  "new_jobs_for existing jobs =
     (let existing_ids = set (map dedup_key existing)
      in filter (\<lambda>j. dedup_key j \<notin> existing_ids) jobs)"

definition extract_jobs :: "extract_env \<Rightarrow> job_page \<Rightarrow> extraction_session \<Rightarrow> string \<times> extraction_session" where
  "extract_jobs env pg s =
     (case page_raises env of
        Some e \<Rightarrow> (''Job extraction failed: '' @ e, s)
      | None \<Rightarrow>
     (let jobs = scrape_jobs (listings pg) in
      if jobs = [] then
        (''No job listings found on this page. Try calling scroll_page('' @ [CHR 0x27] @ ''bottom''
           @ [CHR 0x27] @ '') first to load lazy content.'', s)
      else
        (case (if file_path s = None then
                 (case makedirs_raises env of
                    Some e \<Rightarrow> Inl e
                  | None \<Rightarrow> Inr \<lparr> file_path = Some (extractions_dir env @ ''/jobs_'' @ timestamp env @ ''.json''),
                                 session_jobs = [], pages_scraped = 0 \<rparr>)
               else Inr s) of
           Inl e \<Rightarrow> (''Job extraction failed: '' @ e, s)
         | Inr s1 \<Rightarrow>
             (let new_jobs = new_jobs_for (session_jobs s1) jobs;
                  s2 = s1\<lparr> session_jobs := session_jobs s1 @ new_jobs,
                           pages_scraped := pages_scraped s1 + 1 \<rparr>;
                  total_jobs = length (session_jobs s2)
              in (case write_raises env of
                    Some e \<Rightarrow> (''Job extraction failed: '' @ e, s2)
                  | None \<Rightarrow>
                      (''Page '' @ str_nat (pages_scraped s2) @ '': +'' @ str_nat (length new_jobs)
                         @ '' new jobs (total: '' @ str_nat total_jobs @ '')'' @ [newline]
                         @ ''Data saved: ''
                         @ relative_path env (case file_path s2 of Some p \<Rightarrow> p | None \<Rightarrow> [])
                         @ [newline]
                         @ (if pagination pg \<noteq> [] then
                              ''Pagination available: '' @ str_nat (length (pagination pg)) @ '' pages''
                            else ''No more pages''), s2))))))"

text \<open>
  A result page with four listing elements (one without a job link, one repeating a
  title) and an environment in which the disk works.
\<close>

definition indeed_page :: job_page where
  "indeed_page = \<lparr> listings =
       [\<lparr> link_href = Some ''https://x.example/viewjob?jk=abc123&from=serp'',
          title_text = Some ''  ML Engineer  '' \<rparr>,
        \<lparr> link_href = Some ''https://x.example/jobs/42'', title_text = Some ''Data Analyst'' \<rparr>,
        \<lparr> link_href = None, title_text = Some ''Sponsored'' \<rparr>,
        \<lparr> link_href = Some ''https://x.example/viewjob?jk=zzz'', title_text = Some ''ML Engineer'' \<rparr>],
     pagination = [(''2'', ''https://x.example/jobs?start=10'')] \<rparr>"

definition disk_ok :: extract_env where
  "disk_ok = \<lparr> page_raises = None, makedirs_raises = None, write_raises = None,
     timestamp = ''20260101_120000'', extractions_dir = ''/repo/logs/extractions'',
     relative_path = drop 6 \<rparr>"

section \<open>Results\<close>

lemma str_nat_not_Nil: "str_nat n \<noteq> []"
  by (subst str_nat.simps) simp

text \<open>
  C1 (as stated, refuted): with a viewport of height 800 a requested y of 0 is
  neither scrolled nor clamped, so the coordinate clicked is 0, outside \<open>[1, 799]\<close>.
\<close>

theorem C1_clicked_y_counterexample:
  "wheel_delta 800 0 = None \<and> clicked_y 800 0 = 0
   \<and> \<not> (1 \<le> clicked_y 800 0 \<and> clicked_y 800 0 \<le> 800 - 1)"
  by (simp add: clicked_y_def wheel_delta_def click_y_correction_def)

text \<open>
  C1 (amended): for a viewport of height \<open>vh \<ge> 2\<close>, a requested y outside \<open>[0, vh]\<close>
  makes the engine scroll by \<open>y - vh div 2\<close> and recompute the local y as \<open>vh div 2\<close>;
  a requested y inside \<open>[0, vh]\<close> is clicked unchanged without scrolling. The y clicked
  is always in \<open>[0, vh]\<close>, and it is in \<open>[1, vh - 1]\<close> whenever the requested y is
  neither 0 nor \<open>vh\<close>.
\<close>

theorem C1_clicked_y_amended:
  assumes "2 \<le> vh"
  shows "(y < 0 \<or> vh < y \<longrightarrow>
            wheel_delta vh y = Some (y - vh div 2) \<and> clicked_y vh y = vh div 2)
       \<and> (0 \<le> y \<and> y \<le> vh \<longrightarrow> wheel_delta vh y = None \<and> clicked_y vh y = y)
       \<and> 0 \<le> clicked_y vh y \<and> clicked_y vh y \<le> vh
       \<and> (y \<noteq> 0 \<and> y \<noteq> vh \<longrightarrow> 1 \<le> clicked_y vh y \<and> clicked_y vh y \<le> vh - 1)"
proof -
  have half: "1 \<le> vh div 2" "vh div 2 \<le> vh - 1"
    using assms by auto
  show ?thesis
    using half by (auto simp: clicked_y_def wheel_delta_def click_y_correction_def Let_def)
qed

theorem C1_clicked_y_amended_witness:
  "(2::int) \<le> 800 \<and> wheel_delta 800 (-50) = Some (-450) \<and> clicked_y 800 (-50) = 400
   \<and> wheel_delta 800 1300 = Some 900 \<and> clicked_y 800 1300 = 400
   \<and> clicked_y 800 799 = 799"
proof -
  have h: "(2::int) \<le> 800" by simp
  show ?thesis
    using C1_clicked_y_amended [OF h, of "-50"] C1_clicked_y_amended [OF h, of 1300]
      C1_clicked_y_amended [OF h, of 799]
    by simp
qed

subsection \<open>Session manager\<close>

lemmas ex_defs = tab_a_def tab_b_def tab_u_def tab_u_other_def cdp_manager_def thread_A_def
  thread_B_def thread_B_drifted_def

lemma set_page_url:
  "m_connected_via_cdp a \<Longrightarrow> m_browser a \<noteq> None \<Longrightarrow>
     global_active_page_url (fst (set_page g a p)) = url p"
  by (auto simp: set_page_def Let_def split: option.splits)

lemma find_url_Some:
  "find (\<lambda>q. url q = u) ps = Some q \<Longrightarrow> url q = u \<and> q \<in> set ps"
  by (induction ps) (auto split: if_splits)

text \<open>
  C2 (as stated, refuted): thread A has made the tab with URL \<open>https://u.example/\<close>
  active, and no page open in thread B's view has that URL. \<open>get_page\<close> in thread B
  returns its cached handle \<open>tab_b\<close>, not the first open tab \<open>tab_a\<close>.
\<close>

theorem C2_get_page_counterexample:
  "global_active_page_url (fst (set_page initial_active_tab thread_A tab_u_other)) = url tab_u_other
   \<and> find (\<lambda>q. url q = url tab_u_other) (get_all_pages thread_B_drifted) = None
   \<and> get_all_pages thread_B_drifted = [tab_a, tab_b]
   \<and> fst (get_page (fst (set_page initial_active_tab thread_A tab_u_other)) thread_B_drifted) = Some tab_b
   \<and> Some tab_b \<noteq> Some (hd (get_all_pages thread_B_drifted))"
  by (simp add: ex_defs set_page_def get_page_def sync_page_def get_all_pages_def
      browser_pages_def initial_active_tab_def Let_def)

text \<open>
  C2 (amended): let thread A, attached over the remote-debugging endpoint, call
  \<open>set_page p\<close> with a non-empty URL; the descriptor then holds \<open>url p\<close>. For any other
  attached thread B whose local page is missing or has another URL: if some open page
  of B has that URL, \<open>get_page\<close> makes the first such page B's local page and returns it
  (\<open>None\<close> if it is closed); if no open page has that URL, \<open>get_page\<close> leaves B's
  manager as it is and returns the cached handle (\<open>None\<close> if missing or closed).
\<close>

theorem C2_get_page_sync:
  assumes A: "m_connected_via_cdp a" "m_browser a \<noteq> None"
      and B: "m_connected_via_cdp b" "m_browser b \<noteq> None"
      and U: "url p \<noteq> []"
      and D: "case m_page b of None \<Rightarrow> True | Some q \<Rightarrow> url q \<noteq> url p"
      and S: "set_page g a p = (g', a')"
  shows "global_active_page_url g' = url p
    \<and> ((\<exists>q \<in> set (get_all_pages b). url q = url p) \<longrightarrow>
         (\<exists>q. find (\<lambda>q. url q = url p) (get_all_pages b) = Some q
            \<and> q \<in> set (get_all_pages b) \<and> url q = url p
            \<and> m_page (snd (get_page g' b)) = Some q
            \<and> fst (get_page g' b) = (if is_closed q then None else Some q)))
    \<and> ((\<forall>q \<in> set (get_all_pages b). url q \<noteq> url p) \<longrightarrow>
         snd (get_page g' b) = b
         \<and> fst (get_page g' b) =
             (case m_page b of None \<Rightarrow> None
              | Some q \<Rightarrow> if is_closed q then None else Some q))"
proof -
  have u: "global_active_page_url g' = url p"
    using set_page_url [OF A, of g p] S by simp
  have s: "sync_page g' b =
     (case find (\<lambda>q. url q = url p) (get_all_pages b) of
        Some q \<Rightarrow> b\<lparr> m_page := Some q \<rparr> | None \<Rightarrow> b)"
    using B U D u by (simp add: sync_page_def Let_def)
  have hit: "(\<exists>q \<in> set (get_all_pages b). url q = url p) \<longrightarrow>
         (\<exists>q. find (\<lambda>q. url q = url p) (get_all_pages b) = Some q
            \<and> q \<in> set (get_all_pages b) \<and> url q = url p
            \<and> m_page (snd (get_page g' b)) = Some q
            \<and> fst (get_page g' b) = (if is_closed q then None else Some q))"
  proof
    assume "\<exists>q \<in> set (get_all_pages b). url q = url p"
    then have "find (\<lambda>q. url q = url p) (get_all_pages b) \<noteq> None"
      by (auto simp: find_None_iff)
    then obtain q where f: "find (\<lambda>q. url q = url p) (get_all_pages b) = Some q"
      by blast
    have "q \<in> set (get_all_pages b) \<and> url q = url p"
      using find_url_Some [OF f] by simp
    moreover have "m_page (snd (get_page g' b)) = Some q
        \<and> fst (get_page g' b) = (if is_closed q then None else Some q)"
      using s f by (simp add: get_page_def Let_def)
    ultimately show "\<exists>q. find (\<lambda>q. url q = url p) (get_all_pages b) = Some q
            \<and> q \<in> set (get_all_pages b) \<and> url q = url p
            \<and> m_page (snd (get_page g' b)) = Some q
            \<and> fst (get_page g' b) = (if is_closed q then None else Some q)"
      using f by blast
  qed
  have miss: "(\<forall>q \<in> set (get_all_pages b). url q \<noteq> url p) \<longrightarrow>
         snd (get_page g' b) = b
         \<and> fst (get_page g' b) =
             (case m_page b of None \<Rightarrow> None
              | Some q \<Rightarrow> if is_closed q then None else Some q)"
  proof
    assume "\<forall>q \<in> set (get_all_pages b). url q \<noteq> url p"
    then have f: "find (\<lambda>q. url q = url p) (get_all_pages b) = None"
      by (auto simp: find_None_iff)
    show "snd (get_page g' b) = b
         \<and> fst (get_page g' b) =
             (case m_page b of None \<Rightarrow> None
              | Some q \<Rightarrow> if is_closed q then None else Some q)"
      using s f by (simp add: get_page_def Let_def split: option.splits)
  qed
  show ?thesis using u hit miss by blast
qed

theorem C2_get_page_sync_witness:
  "fst (get_page (fst (set_page initial_active_tab thread_A tab_u_other)) thread_B) = Some tab_u
   \<and> url tab_u = url tab_u_other \<and> tab_u \<noteq> tab_a \<and> m_page thread_B = Some tab_a
   \<and> fst (get_page (fst (set_page initial_active_tab thread_A tab_u_other)) thread_B_drifted)
       = Some tab_b"
proof -
  have A: "m_connected_via_cdp thread_A" "m_browser thread_A \<noteq> None"
    by (simp_all add: ex_defs)
  have B: "m_connected_via_cdp thread_B" "m_browser thread_B \<noteq> None"
    by (simp_all add: ex_defs)
  have B': "m_connected_via_cdp thread_B_drifted" "m_browser thread_B_drifted \<noteq> None"
    by (simp_all add: ex_defs)
  have U: "url tab_u_other \<noteq> []" by (simp add: ex_defs)
  have D: "case m_page thread_B of None \<Rightarrow> True | Some q \<Rightarrow> url q \<noteq> url tab_u_other"
    by (simp add: ex_defs)
  have D': "case m_page thread_B_drifted of None \<Rightarrow> True | Some q \<Rightarrow> url q \<noteq> url tab_u_other"
    by (simp add: ex_defs)
  have S: "set_page initial_active_tab thread_A tab_u_other =
     (fst (set_page initial_active_tab thread_A tab_u_other),
      snd (set_page initial_active_tab thread_A tab_u_other))"
    by simp
  have pB: "get_all_pages thread_B = [tab_a, tab_b, tab_u]"
    by (simp add: ex_defs get_all_pages_def browser_pages_def)
  have pB': "get_all_pages thread_B_drifted = [tab_a, tab_b]"
    by (simp add: ex_defs get_all_pages_def browser_pages_def)
  have t: "url tab_a \<noteq> url tab_u_other" "url tab_b \<noteq> url tab_u_other"
     "url tab_u = url tab_u_other" "\<not> is_closed tab_u" "\<not> is_closed tab_b" "tab_u \<noteq> tab_a"
     "m_page thread_B = Some tab_a" "m_page thread_B_drifted = Some tab_b"
    by (simp_all add: ex_defs)
  show ?thesis
    using C2_get_page_sync [OF A B U D S] C2_get_page_sync [OF A B' U D' S] pB pB' t
    by simp
qed

lemma try_pass_driver_call:
  "try_pass (driver_call r c tr) = (Inr (), tr @ [c])"
  by (simp add: try_pass_def driver_call_def)

lemma close_returns:
  "\<exists>tr'. close env m tr =
     (Inr (m\<lparr> m_page := None, m_context := None, m_browser := None,
              m_playwright := None, m_connected_via_cdp := False \<rparr>), tr')"
  by (simp add: close_def try_pass_driver_call)

lemma close_cleared:
  "handles_cleared m \<Longrightarrow> close env m tr = (Inr m, tr)"
  by (simp add: close_def handles_cleared_def)

lemma close_each_cleared:
  "\<exists>left tr'. close_each env ms tr = (left, tr') \<and> list_all handles_cleared left
      \<and> length left = length ms"
proof (induction ms arbitrary: tr)
  case Nil
  then show ?case by simp
next
  case (Cons m ms)
  obtain tr1 where c: "close env m tr =
     (Inr (m\<lparr> m_page := None, m_context := None, m_browser := None,
              m_playwright := None, m_connected_via_cdp := False \<rparr>), tr1)"
    using close_returns by blast
  obtain left tr2 where r: "close_each env ms tr1 = (left, tr2)" "list_all handles_cleared left"
     "length left = length ms"
    using Cons.IH by blast
  have h: "handles_cleared (m\<lparr> m_page := None, m_context := None, m_browser := None,
              m_playwright := None, m_connected_via_cdp := False \<rparr>)"
    by (simp add: handles_cleared_def)
  show ?case using c r h by simp
qed

text \<open>
  C9: \<open>close\<close> on a manager in any state returns normally whatever the driver calls
  do, leaves every handle cleared, and a second \<open>close\<close> returns the same state and
  makes no further driver call; on a freshly constructed manager it changes nothing.
  The shutdown hook \<open>_cleanup_all_managers\<close> leaves every tracked manager cleared and
  the registry empty, and running it again does nothing.
\<close>

theorem C9_close_idempotent:
  "(\<exists>m' tr'. close e1 m tr = (Inr m', tr') \<and> handles_cleared m'
       \<and> close e2 m' tr' = (Inr m', tr'))
   \<and> close e1 new_manager tr = (Inr new_manager, tr)
   \<and> (\<exists>left tr'. cleanup_all_managers e1 ms tr = (left, [], tr')
         \<and> list_all handles_cleared left
         \<and> cleanup_all_managers e2 [] tr' = ([], [], tr'))"
proof -
  obtain tr1 where c: "close e1 m tr =
     (Inr (m\<lparr> m_page := None, m_context := None, m_browser := None,
              m_playwright := None, m_connected_via_cdp := False \<rparr>), tr1)"
    using close_returns by blast
  let ?m' = "m\<lparr> m_page := None, m_context := None, m_browser := None,
              m_playwright := None, m_connected_via_cdp := False \<rparr>"
  have h: "handles_cleared ?m'" by (simp add: handles_cleared_def)
  have a: "\<exists>m' tr'. close e1 m tr = (Inr m', tr') \<and> handles_cleared m'
       \<and> close e2 m' tr' = (Inr m', tr')"
    using c h close_cleared [OF h] by blast
  have b: "close e1 new_manager tr = (Inr new_manager, tr)"
    by (rule close_cleared) (simp add: handles_cleared_def new_manager_def)
  obtain left tr2 where r: "close_each e1 ms tr = (left, tr2)" "list_all handles_cleared left"
    using close_each_cleared by blast
  have d: "\<exists>left tr'. cleanup_all_managers e1 ms tr = (left, [], tr')
         \<and> list_all handles_cleared left
         \<and> cleanup_all_managers e2 [] tr' = ([], [], tr')"
    using r by (simp add: cleanup_all_managers_def)
  show ?thesis using a b d by blast
qed

theorem C9_close_idempotent_witness:
  "(\<exists>m' tr'. close \<lparr> context_close_raises = True, browser_close_raises = False,
                    playwright_stop_raises = True \<rparr>
         (new_manager\<lparr> m_playwright := Some 0, m_context := Some \<lparr> pages = [] \<rparr> \<rparr>) [] = (Inr m', tr')
       \<and> handles_cleared m')
   \<and> close \<lparr> context_close_raises = True, browser_close_raises = False,
              playwright_stop_raises = True \<rparr> new_manager [] = (Inr new_manager, [])"
  using C9_close_idempotent [of "\<lparr> context_close_raises = True, browser_close_raises = False,
                    playwright_stop_raises = True \<rparr>"
      "new_manager\<lparr> m_playwright := Some 0, m_context := Some \<lparr> pages = [] \<rparr> \<rparr>" "[]"]
  by blast




subsection \<open>Batched sequences and waits\<close>




lemma run_lines_append:
  "run_lines drv (xs @ ys) w =
     (case run_lines drv xs w of (rs, w1) \<Rightarrow>
        (case run_lines drv ys w1 of (rs', w2) \<Rightarrow> (rs @ rs', w2)))"
  by (induction xs arbitrary: w) (auto split: prod.splits option.splits)












subsection \<open>Extraction\<close>

lemma new_jobs_for_again:
  "new_jobs_for (existing @ new_jobs_for existing jobs) jobs = []"
  by (auto simp: new_jobs_for_def filter_empty_conv)

text \<open>
  C4: let a call of \<open>extract_jobs\<close> get as far as recording what it found (the page
  could be evaluated and, on the first call of a session, the directory could be
  made). A second call on the same page then adds no record: the session's list is
  unchanged, nothing scraped is new with respect to it, and when the call succeeds
  its summary reports \<open>+0 new jobs\<close>. A record's key is its id when it has a
  non-empty one and its title otherwise.
\<close>

theorem C4_extract_jobs_idempotent:
  assumes "page_raises env1 = None"
      and "file_path s0 = None \<longrightarrow> makedirs_raises env1 = None"
      and "s1 = snd (extract_jobs env1 pg s0)"
  shows "session_jobs (snd (extract_jobs env2 pg s1)) = session_jobs s1
     \<and> new_jobs_for (session_jobs s1) (scrape_jobs (listings pg)) = []
     \<and> (page_raises env2 = None \<and> write_raises env2 = None \<and> scrape_jobs (listings pg) \<noteq> [] \<longrightarrow>
          (\<exists>rest. fst (extract_jobs env2 pg s1)
             = ''Page '' @ str_nat (pages_scraped s1 + 1) @ '': +'' @ str_nat 0
                 @ '' new jobs (total: '' @ str_nat (length (session_jobs s1)) @ '')'' @ rest))"
proof (cases "scrape_jobs (listings pg) = []")
  case True
  then show ?thesis
    using assms by (auto simp: extract_jobs_def Let_def new_jobs_for_def split: option.splits)
next
  case False
  define base where "base =
     (if file_path s0 = None
      then \<lparr> file_path = Some (extractions_dir env1 @ ''/jobs_'' @ timestamp env1 @ ''.json''),
             session_jobs = [], pages_scraped = 0 \<rparr>
      else s0)"
  have s1: "s1 = base\<lparr> session_jobs := session_jobs base
                 @ new_jobs_for (session_jobs base) (scrape_jobs (listings pg)),
               pages_scraped := pages_scraped base + 1 \<rparr>"
    using assms False
    by (auto simp: extract_jobs_def Let_def base_def split: option.splits)
  have fp: "file_path s1 \<noteq> None"
    unfolding s1 by (auto simp: base_def)
  have nj: "new_jobs_for (session_jobs s1) (scrape_jobs (listings pg)) = []"
    unfolding s1 by (simp add: new_jobs_for_again)
  have a: "session_jobs (snd (extract_jobs env2 pg s1)) = session_jobs s1"
    using fp nj False by (auto simp: extract_jobs_def Let_def split: option.splits)
  have b: "page_raises env2 = None \<and> write_raises env2 = None
       \<and> scrape_jobs (listings pg) \<noteq> [] \<longrightarrow>
          (\<exists>rest. fst (extract_jobs env2 pg s1)
             = ''Page '' @ str_nat (pages_scraped s1 + 1) @ '': +'' @ str_nat 0
                 @ '' new jobs (total: '' @ str_nat (length (session_jobs s1)) @ '')'' @ rest)"
    using fp nj by (auto simp: extract_jobs_def Let_def split: option.splits)
  show ?thesis using a b nj by blast
qed

theorem C4_extract_jobs_idempotent_witness:
  "length (session_jobs (snd (extract_jobs disk_ok indeed_page reset_extraction_session))) = 2
   \<and> session_jobs (snd (extract_jobs disk_ok indeed_page
        (snd (extract_jobs disk_ok indeed_page reset_extraction_session))))
      = session_jobs (snd (extract_jobs disk_ok indeed_page reset_extraction_session))
   \<and> (\<exists>rest. fst (extract_jobs disk_ok indeed_page
        (snd (extract_jobs disk_ok indeed_page reset_extraction_session)))
        = ''Page '' @ str_nat 2 @ '': +'' @ str_nat 0 @ '' new jobs (total: '' @ str_nat 2 @ '')'' @ rest)"
proof -
  have h1: "page_raises disk_ok = None" "write_raises disk_ok = None"
    by (simp_all add: disk_ok_def)
  have h2: "file_path reset_extraction_session = None \<longrightarrow> makedirs_raises disk_ok = None"
    by (simp add: disk_ok_def)
  have e: "length (session_jobs (snd (extract_jobs disk_ok indeed_page reset_extraction_session))) = 2"
    "pages_scraped (snd (extract_jobs disk_ok indeed_page reset_extraction_session)) = 1"
    "scrape_jobs (listings indeed_page) \<noteq> []"
    by code_simp+
  show ?thesis
    using C4_extract_jobs_idempotent [OF h1(1) h2 refl, where pg = indeed_page and ?env2.0 = disk_ok] h1 e
    by (simp add: numeral_2_eq_2)
qed

end
